theory Spec2Isabelle
  imports Main
begin

section \<open>Data model (sae/models/a2a.py)\<close>

text \<open>
  The pydantic models of \<^verbatim>\<open>sae.models.a2a\<close> that the task manager uses. A
  \<^verbatim>\<open>dict[str, Any]\<close> is an association list of strings, a
  \<^verbatim>\<open>datetime\<close> is a clock reading in ticks. Field names carry the name of their
  model as a prefix, since record fields share one name space.
\<close>

datatype TaskState = SUBMITTED | WORKING | INPUT_REQUIRED | COMPLETED | FAILED | CANCELED

type_synonym json_dict = "(string \<times> string) list"

type_synonym datetime = nat

datatype Part = TextPart string | FilePart json_dict | DataPart json_dict

datatype Role = user | agent

record Message =
  msg_role :: Role
  msg_parts :: "Part list"
  msg_metadata :: json_dict

record TaskStatus =
  st_state :: TaskState
  st_message :: "Message option"
  st_timestamp :: datetime

record Artifact =
  art_name :: string
  art_description :: "string option"
  art_parts :: "Part list"
  art_index :: int
  art_metadata :: json_dict

text \<open>
  An \<^verbatim>\<open>Artifact\<close> is a mutable object: \<^verbatim>\<open>add_artifact\<close> assigns to the
  \<^verbatim>\<open>index\<close> attribute of the object it is given and appends that same object to
  the task's list. A task therefore holds references to artifact objects, and the objects
  live in a heap.
\<close>

type_synonym artifact_ref = nat

type_synonym queue_ref = nat

record Task =
  task_id :: string
  task_status :: TaskStatus
  task_artifacts :: "artifact_ref list"
  task_history :: "Message list"
  task_metadata :: json_dict

record TaskResult =
  res_id :: string
  res_status :: TaskStatus
  res_artifacts :: "artifact_ref list"
  res_metadata :: json_dict

section \<open>Task manager (sae/services/task_manager.py)\<close>

datatype error = TaskNotFoundError | InvalidStateTransitionError | KeyError | ValueError

text \<open>
  \<^verbatim>\<open>VALID_TRANSITIONS: dict[TaskState, set[TaskState]]\<close>, with its six keys.
\<close>

fun VALID_TRANSITIONS :: "TaskState \<rightharpoonup> TaskState set" where
  "VALID_TRANSITIONS SUBMITTED = Some {WORKING, CANCELED, FAILED}"
| "VALID_TRANSITIONS WORKING = Some {COMPLETED, FAILED, CANCELED, INPUT_REQUIRED}"
| "VALID_TRANSITIONS INPUT_REQUIRED = Some {WORKING, CANCELED, FAILED}"
| "VALID_TRANSITIONS COMPLETED = Some {}"
| "VALID_TRANSITIONS FAILED = Some {}"
| "VALID_TRANSITIONS CANCELED = Some {}"

text \<open>
  The state of a \<^verbatim>\<open>TaskManager\<close>: the two dictionaries \<^verbatim>\<open>_tasks\<close> and
  \<^verbatim>\<open>_subscribers\<close>, and the objects they refer to: the artifact objects
  (\<open>heap\<close>) and the \<^verbatim>\<open>asyncio.Queue\<close> objects (\<open>queues\<close>, each the list of
  results put and not yet got, oldest first). \<open>next_queue\<close> is the identity that the
  next \<^verbatim>\<open>asyncio.Queue()\<close> receives. No coroutine of the manager suspends while it
  holds \<^verbatim>\<open>_lock\<close> (the queues are unbounded, so \<^verbatim>\<open>put\<close> never waits), hence
  every method below runs as one atomic step; the only suspension point is
  \<^verbatim>\<open>queue.get()\<close> in \<^verbatim>\<open>subscribe\<close>.
\<close>

record TaskManager =
  tasks :: "string \<rightharpoonup> Task"
  subscribers :: "string \<rightharpoonup> queue_ref list"
  heap :: "artifact_ref \<Rightarrow> Artifact"
  queues :: "queue_ref \<Rightarrow> TaskResult list"
  next_queue :: queue_ref

definition TaskManager_init :: "(artifact_ref \<Rightarrow> Artifact) \<Rightarrow> TaskManager" where
  "TaskManager_init h =
     \<lparr>tasks = Map.empty, subscribers = Map.empty, heap = h, queues = (\<lambda>_. []), next_queue = 0\<rparr>"

definition task_to_result :: "Task \<Rightarrow> TaskResult" where
  "task_to_result task =
     \<lparr>res_id = task_id task, res_status = task_status task,
      res_artifacts = task_artifacts task, res_metadata = task_metadata task\<rparr>"

text \<open>\<^verbatim>\<open>queue.put(result)\<close> for each queue of a list, in order.\<close>

fun put_all :: "queue_ref list \<Rightarrow> TaskResult \<Rightarrow> (queue_ref \<Rightarrow> TaskResult list) \<Rightarrow>
    (queue_ref \<Rightarrow> TaskResult list)" where
  "put_all [] result qs = qs"
| "put_all (queue # rest) result qs = put_all rest result (qs(queue := qs queue @ [result]))"

definition notify_subscribers :: "string \<Rightarrow> TaskManager \<Rightarrow> error + TaskManager" where
  "notify_subscribers tid s =
     (case subscribers s tid of
        None \<Rightarrow> Inr s
      | Some subs \<Rightarrow>
          (case tasks s tid of
             None \<Rightarrow> Inl KeyError
           | Some task \<Rightarrow> Inr (s\<lparr>queues := put_all subs (task_to_result task) (queues s)\<rparr>)))"

text \<open>
  \<^verbatim>\<open>create_task(message, task_id, metadata)\<close>. \<open>now\<close> is what
  \<^verbatim>\<open>datetime.utcnow()\<close> returns and \<open>uuid\<close> what \<^verbatim>\<open>str(uuid4())\<close> returns
  when no id is given.
\<close>

definition create_task :: "datetime \<Rightarrow> string \<Rightarrow> Message \<Rightarrow> string option \<Rightarrow>
    json_dict option \<Rightarrow> TaskManager \<Rightarrow> Task \<times> TaskManager" where
  "create_task now uuid message tid_opt metadata s =
     (let tid = (case tid_opt of None \<Rightarrow> uuid | Some i \<Rightarrow> i) in
      case tasks s tid of
        Some existing_task \<Rightarrow>
          (let existing_task' =
                 existing_task\<lparr>task_history := task_history existing_task @ [message]\<rparr>
           in (existing_task', s\<lparr>tasks := (tasks s)(tid \<mapsto> existing_task')\<rparr>))
      | None \<Rightarrow>
          (let task = \<lparr>task_id = tid,
                       task_status = \<lparr>st_state = SUBMITTED, st_message = None,
                                      st_timestamp = now\<rparr>,
                       task_artifacts = [],
                       task_history = [message],
                       task_metadata = (case metadata of None \<Rightarrow> []
                                        | Some md \<Rightarrow> if md = [] then [] else md)\<rparr>
           in (task, s\<lparr>tasks := (tasks s)(tid \<mapsto> task),
                       subscribers := (subscribers s)(tid \<mapsto> [])\<rparr>)))"

definition get_task :: "string \<Rightarrow> TaskManager \<Rightarrow> error + Task" where
  "get_task tid s = (case tasks s tid of None \<Rightarrow> Inl TaskNotFoundError | Some task \<Rightarrow> Inr task)"

definition update_status :: "datetime \<Rightarrow> string \<Rightarrow> TaskState \<Rightarrow> Message option \<Rightarrow>
    TaskManager \<Rightarrow> (error + Task) \<times> TaskManager" where
  "update_status now tid state message s =
     (case tasks s tid of
        None \<Rightarrow> (Inl TaskNotFoundError, s)
      | Some task \<Rightarrow>
          (let current_state = st_state (task_status task) in
           if state \<notin> (case VALID_TRANSITIONS current_state of None \<Rightarrow> {} | Some allowed \<Rightarrow> allowed)
           then (Inl InvalidStateTransitionError, s)
           else
             (let task1 = task\<lparr>task_status := \<lparr>st_state = state, st_message = message,
                                                st_timestamp = now\<rparr>\<rparr>;
                  task2 = (case message of
                             None \<Rightarrow> task1
                           | Some m \<Rightarrow> task1\<lparr>task_history := task_history task1 @ [m]\<rparr>);
                  s1 = s\<lparr>tasks := (tasks s)(tid \<mapsto> task2)\<rparr>
              in case notify_subscribers tid s1 of
                   Inl e \<Rightarrow> (Inl e, s1)
                 | Inr s2 \<Rightarrow> (Inr task2, s2))))"

definition add_artifact :: "string \<Rightarrow> artifact_ref \<Rightarrow> TaskManager \<Rightarrow>
    (error + Task) \<times> TaskManager" where
  "add_artifact tid artifact s =
     (case tasks s tid of
        None \<Rightarrow> (Inl TaskNotFoundError, s)
      | Some task \<Rightarrow>
          (let s1 = s\<lparr>heap := (heap s)
                        (artifact := (heap s artifact)
                           \<lparr>art_index := int (length (task_artifacts task))\<rparr>)\<rparr>;
               task1 = task\<lparr>task_artifacts := task_artifacts task @ [artifact]\<rparr>;
               s2 = s1\<lparr>tasks := (tasks s1)(tid \<mapsto> task1)\<rparr>
           in case notify_subscribers tid s2 of
                Inl e \<Rightarrow> (Inl e, s2)
              | Inr s3 \<Rightarrow> (Inr task1, s3)))"

definition cancel_task :: "datetime \<Rightarrow> string \<Rightarrow> TaskManager \<Rightarrow> (error + Task) \<times> TaskManager" where
  "cancel_task now tid s =
     update_status now tid CANCELED
       (Some \<lparr>msg_role = agent, msg_parts = [TextPart ''Task was canceled by request.''],
              msg_metadata = []\<rparr>) s"

definition fail_task :: "datetime \<Rightarrow> string \<Rightarrow> string \<Rightarrow> TaskManager \<Rightarrow>
    (error + Task) \<times> TaskManager" where
  "fail_task now tid error_message s =
     update_status now tid FAILED
       (Some \<lparr>msg_role = agent, msg_parts = [TextPart (''Task failed: '' @ error_message)],
              msg_metadata = []\<rparr>) s"

definition complete_task :: "datetime \<Rightarrow> string \<Rightarrow> Message option \<Rightarrow> TaskManager \<Rightarrow>
    (error + Task) \<times> TaskManager" where
  "complete_task now tid message s = update_status now tid COMPLETED message s"

subsection \<open>The subscription generator\<close>

text \<open>
  \<^verbatim>\<open>subscribe\<close> is an async generator. Its frame, between two resumptions, holds the
  queue it created and the result it yielded last inside the loop (\<open>None\<close> after the yield
  of the initial state); \<open>Closed\<close> is the generator after its \<^verbatim>\<open>finally\<close> block.
  A resumption yields a result, or waits in \<^verbatim>\<open>queue.get()\<close> on an empty queue, or
  ends the iteration.
\<close>

datatype Frame = Running queue_ref "TaskResult option" | Closed

datatype Poll = Yield TaskResult | Waiting | StopAsyncIteration

text \<open>The first resumption: the check, the registration and the yield of the initial state.\<close>

definition subscribe :: "string \<Rightarrow> TaskManager \<Rightarrow> (error + TaskResult \<times> Frame) \<times> TaskManager" where
  "subscribe tid s =
     (case tasks s tid of
        None \<Rightarrow> (Inl TaskNotFoundError, s)
      | Some task \<Rightarrow>
          (let queue = next_queue s;
               s1 = s\<lparr>queues := (queues s)(queue := []), next_queue := Suc queue\<rparr>
           in case subscribers s1 tid of
                None \<Rightarrow> (Inl KeyError, s1)
              | Some subs \<Rightarrow>
                  (let s2 = s1\<lparr>subscribers := (subscribers s1)(tid \<mapsto> subs @ [queue])\<rparr>
                   in (Inr (task_to_result task, Running queue None), s2))))"

text \<open>The \<^verbatim>\<open>finally\<close> block: \<^verbatim>\<open>list.remove\<close> raises when the queue is not in the list.\<close>

definition unsubscribe :: "string \<Rightarrow> queue_ref \<Rightarrow> TaskManager \<Rightarrow> error + TaskManager" where
  "unsubscribe tid queue s =
     (case subscribers s tid of
        None \<Rightarrow> Inr s
      | Some subs \<Rightarrow>
          if queue \<in> set subs
          then Inr (s\<lparr>subscribers := (subscribers s)(tid \<mapsto> remove1 queue subs)\<rparr>)
          else Inl ValueError)"

text \<open>
  Every later resumption: after a yield inside the loop the terminal test of the result
  just yielded comes first; then \<^verbatim>\<open>queue.get()\<close> and the next yield.
\<close>

definition resume :: "string \<Rightarrow> Frame \<Rightarrow> TaskManager \<Rightarrow> (error + Poll) \<times> Frame \<times> TaskManager" where
  "resume tid frame s =
     (case frame of
        Closed \<Rightarrow> (Inr StopAsyncIteration, Closed, s)
      | Running queue yielded \<Rightarrow>
          if (case yielded of
                None \<Rightarrow> False
              | Some result \<Rightarrow> st_state (res_status result) \<in> {COMPLETED, FAILED, CANCELED})
          then (case unsubscribe tid queue s of
                  Inl e \<Rightarrow> (Inl e, Closed, s)
                | Inr s' \<Rightarrow> (Inr StopAsyncIteration, Closed, s'))
          else (case queues s queue of
                  [] \<Rightarrow> (Inr Waiting, frame, s)
                | result # rest \<Rightarrow>
                    (Inr (Yield result), Running queue (Some result),
                     s\<lparr>queues := (queues s)(queue := rest)\<rparr>)))"

subsection \<open>Sequences of calls\<close>

text \<open>
  One call on the manager, with what it reads from its environment (the clock, the
  generated id). A caller that catches the exception of a failed call goes on with the
  manager as the call left it.
\<close>

datatype Op =
    CreateTask datetime string Message "string option" "json_dict option"
  | GetTask string
  | UpdateStatus datetime string TaskState "Message option"
  | AddArtifact string artifact_ref
  | CancelTask datetime string
  | FailTask datetime string string
  | CompleteTask datetime string "Message option"
  | Subscribe string
  | Resume string Frame

fun apply_op :: "Op \<Rightarrow> TaskManager \<Rightarrow> TaskManager" where
  "apply_op (CreateTask now uuid message tid metadata) s =
     snd (create_task now uuid message tid metadata s)"
| "apply_op (GetTask tid) s = s"
| "apply_op (UpdateStatus now tid state message) s = snd (update_status now tid state message s)"
| "apply_op (AddArtifact tid artifact) s = snd (add_artifact tid artifact s)"
| "apply_op (CancelTask now tid) s = snd (cancel_task now tid s)"
| "apply_op (FailTask now tid error_message) s = snd (fail_task now tid error_message s)"
| "apply_op (CompleteTask now tid message) s = snd (complete_task now tid message s)"
| "apply_op (Subscribe tid) s = snd (subscribe tid s)"
| "apply_op (Resume tid frame) s = snd (snd (resume tid frame s))"

fun run :: "Op list \<Rightarrow> TaskManager \<Rightarrow> TaskManager" where
  "run [] s = s"
| "run (op # ops) s = run ops (apply_op op s)"

subsection \<open>The transition table of the specification\<close>

text \<open>
  The table as the specification lists it, source state and allowed destination, to be
  compared with \<open>VALID_TRANSITIONS\<close>.
\<close>

definition transition_table :: "(TaskState \<times> TaskState) list" where
  "transition_table =
     [(SUBMITTED, WORKING), (SUBMITTED, CANCELED), (SUBMITTED, FAILED),
      (WORKING, COMPLETED), (WORKING, FAILED), (WORKING, CANCELED), (WORKING, INPUT_REQUIRED),
      (INPUT_REQUIRED, WORKING), (INPUT_REQUIRED, CANCELED), (INPUT_REQUIRED, FAILED)]"

subsection \<open>Consistency of the two dictionaries, and sample values\<close>

text \<open>
  \<^verbatim>\<open>create_task\<close> enters a task into both dictionaries, and no key is ever deleted:
  every task has its list of subscriber queues.
\<close>

definition registered :: "TaskManager \<Rightarrow> bool" where
  "registered s \<longleftrightarrow> (\<forall>tid. tasks s tid \<noteq> None \<longrightarrow> subscribers s tid \<noteq> None)"

definition example_message :: Message where
  "example_message = \<lparr>msg_role = user, msg_parts = [TextPart ''hello''], msg_metadata = []\<rparr>"

definition example_heap :: "artifact_ref \<Rightarrow> Artifact" where
  "example_heap = (\<lambda>_. \<lparr>art_name = ''report'', art_description = None, art_parts = [],
                        art_index = 0, art_metadata = []\<rparr>)"

text \<open>The manager after \<^verbatim>\<open>create_task(message, "t1")\<close> on a new manager.\<close>

definition example_created :: TaskManager where
  "example_created =
     snd (create_task 0 ''generated'' example_message (Some ''t1'') None
            (TaskManager_init example_heap))"

text \<open>The same manager after \<^verbatim>\<open>fail_task("t1", "parse error")\<close>.\<close>

definition example_failed :: TaskManager where
  "example_failed = snd (fail_task 1 ''t1'' ''parse error'' example_created)"

definition example_calls :: "Op list" where
  "example_calls =
     [CreateTask 2 ''generated'' example_message (Some ''t1'') None, AddArtifact ''t1'' 0,
      CompleteTask 3 ''t1'' None, CancelTask 4 ''t1'', UpdateStatus 5 ''t1'' WORKING None,
      Subscribe ''t1'']"

text \<open>One artifact object added to the task twice.\<close>

definition example_same_artifact_twice :: TaskManager where
  "example_same_artifact_twice =
     run [CreateTask 0 ''generated'' example_message (Some ''t1'') None,
          AddArtifact ''t1'' 0, AddArtifact ''t1'' 0] (TaskManager_init example_heap)"

text \<open>A task that has completed before anyone subscribes.\<close>

definition example_completed :: TaskManager where
  "example_completed =
     run [CreateTask 0 ''generated'' example_message (Some ''t1'') None,
          UpdateStatus 1 ''t1'' WORKING None, UpdateStatus 2 ''t1'' COMPLETED None]
       (TaskManager_init example_heap)"

text \<open>A subscriber present from creation, and the two updates it then observes.\<close>

definition example_two_updates :: TaskManager where
  "example_two_updates =
     run [UpdateStatus 1 ''t1'' WORKING None, UpdateStatus 2 ''t1'' COMPLETED None]
       (snd (subscribe ''t1'' example_created))"

definition example_working :: TaskResult where
  "example_working =
     \<lparr>res_id = ''t1'',
      res_status = \<lparr>st_state = WORKING, st_message = None, st_timestamp = 1\<rparr>,
      res_artifacts = [], res_metadata = []\<rparr>"

definition example_done :: TaskResult where
  "example_done =
     \<lparr>res_id = ''t1'',
      res_status = \<lparr>st_state = COMPLETED, st_message = None, st_timestamp = 2\<rparr>,
      res_artifacts = [], res_metadata = []\<rparr>"

subsection \<open>Notions used in the properties\<close>

text \<open>The exception a call raised, if any.\<close>

definition raised :: "error + 'a \<Rightarrow> error set" where
  "raised r = (case r of Inl e \<Rightarrow> {e} | Inr _ \<Rightarrow> {})"

text \<open>
  Every artifact of every task carries its position as its index; and an artifact object
  that no task holds yet.
\<close>

definition indexed :: "TaskManager \<Rightarrow> bool" where
  "indexed s \<longleftrightarrow>
     (\<forall>tid task i. tasks s tid = Some task \<longrightarrow> i < length (task_artifacts task) \<longrightarrow>
        art_index (heap s (task_artifacts task ! i)) = int i)"

definition unused :: "artifact_ref \<Rightarrow> TaskManager \<Rightarrow> bool" where
  "unused a s \<longleftrightarrow> (\<forall>tid task. tasks s tid = Some task \<longrightarrow> a \<notin> set (task_artifacts task))"

section \<open>Properties\<close>

lemmas manager_defs = create_task_def update_status_def add_artifact_def cancel_task_def
  fail_task_def complete_task_def subscribe_def unsubscribe_def resume_def
  notify_subscribers_def Let_def

subsection \<open>Auxiliary facts\<close>

lemma allowed_iff_table:
  "dst \<in> (case VALID_TRANSITIONS src of None \<Rightarrow> {} | Some allowed \<Rightarrow> allowed)
     \<longleftrightarrow> (src, dst) \<in> set transition_table"
  by (cases src; cases dst) (simp_all add: transition_table_def)

lemma raised_simps [simp]: "raised (Inl e) = {e}" "raised (Inr x) = {}"
  by (simp_all add: raised_def)

lemma example_created_task:
  "tasks example_created ''t1'' =
     Some \<lparr>task_id = ''t1'',
           task_status = \<lparr>st_state = SUBMITTED, st_message = None, st_timestamp = 0\<rparr>,
           task_artifacts = [], task_history = [example_message], task_metadata = []\<rparr>"
  by (simp add: example_created_def create_task_def TaskManager_init_def Let_def)

lemma example_failed_task:
  "tasks example_failed ''t1'' =
     Some \<lparr>task_id = ''t1'',
           task_status = \<lparr>st_state = FAILED,
             st_message = Some \<lparr>msg_role = agent,
               msg_parts = [TextPart ''Task failed: parse error''], msg_metadata = []\<rparr>,
             st_timestamp = 1\<rparr>,
           task_artifacts = [],
           task_history = [example_message,
             \<lparr>msg_role = agent, msg_parts = [TextPart ''Task failed: parse error''],
              msg_metadata = []\<rparr>],
           task_metadata = []\<rparr>"
  by (simp add: example_failed_def example_created_def TaskManager_init_def manager_defs)

text \<open>A broadcast for a stored task never raises, and touches the queues only.\<close>

lemma notify_subscribers_ok:
  assumes "tasks s tid = Some task"
  shows "\<exists>s'. notify_subscribers tid s = Inr s' \<and> tasks s' = tasks s \<and> heap s' = heap s
           \<and> subscribers s' = subscribers s \<and> next_queue s' = next_queue s"
  using assms by (simp add: notify_subscribers_def split: option.splits)

lemma update_status_allowed:
  assumes "tasks s tid = Some task"
    and "(st_state (task_status task), dst) \<in> set transition_table"
  shows "\<exists>task' s'. update_status now tid dst message s = (Inr task', s')
           \<and> st_state (task_status task') = dst \<and> tasks s' tid = Some task'"
proof -
  let ?task1 = "task\<lparr>task_status := \<lparr>st_state = dst, st_message = message, st_timestamp = now\<rparr>\<rparr>"
  let ?task2 = "case message of None \<Rightarrow> ?task1
                | Some m \<Rightarrow> ?task1\<lparr>task_history := task_history ?task1 @ [m]\<rparr>"
  let ?s1 = "s\<lparr>tasks := (tasks s)(tid \<mapsto> ?task2)\<rparr>"
  have allowed: "dst \<in> (case VALID_TRANSITIONS (st_state (task_status task)) of
                           None \<Rightarrow> {} | Some allowed \<Rightarrow> allowed)"
    using assms(2) by (simp only: allowed_iff_table)
  have "tasks ?s1 tid = Some ?task2" by simp
  from notify_subscribers_ok [OF this] obtain s' where
    n: "notify_subscribers tid ?s1 = Inr s'" and t: "tasks s' = tasks ?s1" by blast
  have "update_status now tid dst message s = (Inr ?task2, s')"
    using assms(1) allowed n by (simp add: update_status_def Let_def)
  moreover have "st_state (task_status ?task2) = dst" by (cases message) simp_all
  moreover have "tasks s' tid = Some ?task2" using t by simp
  ultimately show ?thesis by blast
qed

lemma update_status_rejected:
  assumes "tasks s tid = Some task"
    and "(st_state (task_status task), dst) \<notin> set transition_table"
  shows "update_status now tid dst message s = (Inl InvalidStateTransitionError, s)"
  using assms by (simp add: update_status_def allowed_iff_table)

lemma update_status_terminal:
  assumes "tasks s tid = Some task"
    and "st_state (task_status task) \<in> {COMPLETED, FAILED, CANCELED}"
  shows "update_status now tid state message s = (Inl InvalidStateTransitionError, s)"
  using assms by (auto simp: update_status_def)

text \<open>
  What one call, and then any sequence of calls, keeps of a stored task: the task stays,
  with its id and metadata, and with its whole status once the state is terminal.
\<close>

lemma apply_op_keeps_task:
  assumes "tasks s tid = Some task"
  shows "\<exists>task'. tasks (apply_op op s) tid = Some task'
           \<and> task_id task' = task_id task \<and> task_metadata task' = task_metadata task
           \<and> (st_state (task_status task) \<in> {COMPLETED, FAILED, CANCELED}
                \<longrightarrow> task_status task' = task_status task)"
  using assms
  by (cases op)
     (auto simp: manager_defs split: option.splits sum.splits list.splits Frame.splits)

lemma run_keeps_task:
  assumes "tasks s tid = Some task"
  shows "\<exists>task'. tasks (run ops s) tid = Some task'
           \<and> task_id task' = task_id task \<and> task_metadata task' = task_metadata task
           \<and> (st_state (task_status task) \<in> {COMPLETED, FAILED, CANCELED}
                \<longrightarrow> task_status task' = task_status task)"
  using assms
proof (induction ops arbitrary: s task)
  case Nil
  then show ?case by simp
next
  case (Cons op ops)
  from apply_op_keeps_task [OF Cons.prems, of op] obtain t1 where
    t1: "tasks (apply_op op s) tid = Some t1" "task_id t1 = task_id task"
      "task_metadata t1 = task_metadata task"
      "st_state (task_status task) \<in> {COMPLETED, FAILED, CANCELED}
         \<longrightarrow> task_status t1 = task_status task"
    by blast
  from Cons.IH [OF t1(1)] obtain t2 where
    t2: "tasks (run ops (apply_op op s)) tid = Some t2" "task_id t2 = task_id t1"
      "task_metadata t2 = task_metadata t1"
      "st_state (task_status t1) \<in> {COMPLETED, FAILED, CANCELED}
         \<longrightarrow> task_status t2 = task_status t1"
    by blast
  show ?case using t1 t2 by auto
qed

text \<open>Every manager that calls can produce from a new one keeps the two dictionaries consistent.\<close>

lemma registered_init: "registered (TaskManager_init h)"
  by (simp add: registered_def TaskManager_init_def)

lemma apply_op_registered: "registered s \<Longrightarrow> registered (apply_op op s)"
  unfolding registered_def
  by (cases op)
     (auto simp: manager_defs split: option.splits sum.splits list.splits Frame.splits if_splits)

lemma run_registered: "registered s \<Longrightarrow> registered (run ops s)"
  by (induction ops arbitrary: s) (simp_all add: apply_op_registered)

lemma reachable_registered:
  "tasks (run ops (TaskManager_init h)) tid = Some task
     \<Longrightarrow> \<exists>subs. subscribers (run ops (TaskManager_init h)) tid = Some subs"
  using run_registered [OF registered_init, of ops h] by (auto simp: registered_def)

lemma subscribe_stored_task:
  assumes "tasks (run ops (TaskManager_init h)) tid = Some task"
  shows "\<exists>frame s'. subscribe tid (run ops (TaskManager_init h))
             = (Inr (\<lparr>res_id = task_id task, res_status = task_status task,
                      res_artifacts = task_artifacts task,
                      res_metadata = task_metadata task\<rparr>, frame), s')
           \<and> tasks s' = tasks (run ops (TaskManager_init h))
           \<and> heap s' = heap (run ops (TaskManager_init h))"
proof -
  from reachable_registered [OF assms] obtain subs where
    "subscribers (run ops (TaskManager_init h)) tid = Some subs" by blast
  with assms show ?thesis
    by (simp add: subscribe_def task_to_result_def Let_def)
qed

subsection \<open>State transitions\<close>

text \<open>
  C1. For a task in state \<open>src\<close> and every pair \<open>(src, dst)\<close> of the specification's
  transition table, \<open>update_status\<close> to \<open>dst\<close>, with or without a message, returns a
  task (no error), the state of the returned task is \<open>dst\<close>, and the returned task is
  the one stored under the id.
\<close>

theorem update_status_valid_transition:
  assumes "tasks s tid = Some task"
    and "(st_state (task_status task), dst) \<in> set transition_table"
  shows "\<exists>task' s'. update_status now tid dst message s = (Inr task', s')
           \<and> st_state (task_status task') = dst \<and> tasks s' tid = Some task'"
  using assms by (rule update_status_allowed)

theorem update_status_valid_transition_witness:
  "(SUBMITTED, WORKING) \<in> set transition_table
   \<and> (\<exists>task' s'. update_status 1 ''t1'' WORKING None example_created = (Inr task', s')
         \<and> st_state (task_status task') = WORKING \<and> tasks s' ''t1'' = Some task')"
proof -
  have h2: "(SUBMITTED, WORKING) \<in> set transition_table"
    by (simp add: transition_table_def)
  from update_status_valid_transition [OF example_created_task, of WORKING 1 None] h2
  show ?thesis by simp
qed

text \<open>
  C2. For an existing task in state \<open>src\<close> and every pair \<open>(src, dst)\<close> that is not in
  the specification's transition table, \<open>update_status\<close> to \<open>dst\<close> raises
  \<open>InvalidStateTransitionError\<close> and leaves the whole manager as it was: the task with
  its status, history, artifacts and metadata, the artifact objects, and every
  subscriber queue (nothing is broadcast).
\<close>

theorem update_status_invalid_transition:
  assumes "tasks s tid = Some task"
    and "(st_state (task_status task), dst) \<notin> set transition_table"
  shows "update_status now tid dst message s = (Inl InvalidStateTransitionError, s)"
  using assms by (rule update_status_rejected)

theorem update_status_invalid_transition_witness:
  "(SUBMITTED, COMPLETED) \<notin> set transition_table
   \<and> update_status 1 ''t1'' COMPLETED (Some example_message) example_created
       = (Inl InvalidStateTransitionError, example_created)"
proof -
  have h2: "(SUBMITTED, COMPLETED) \<notin> set transition_table"
    by (simp add: transition_table_def)
  from update_status_invalid_transition [OF example_created_task, of COMPLETED 1 "Some example_message"] h2
  show ?thesis by simp
qed

subsection \<open>Creation\<close>

text \<open>
  C3. For every id and messages \<open>m1\<close>, \<open>m2\<close>: after \<open>create_task\<close> with \<open>m1\<close> and
  then with \<open>m2\<close> under the same id, each call returns the task stored under the id; the
  second task is the first one with \<open>m2\<close> appended to its history, so id, status,
  artifacts and metadata are those of the first creation; the two calls together add the
  one key \<open>tid\<close> to the store and leave every other task alone; and when the id was
  new, the task is in state \<open>SUBMITTED\<close> with history \<open>[m1, m2]\<close>, no artifacts and
  the metadata of the first call.
\<close>

theorem create_task_twice:
  "tasks (snd (create_task now1 uuid1 m1 (Some tid) md1 s)) tid
     = Some (fst (create_task now1 uuid1 m1 (Some tid) md1 s))
   \<and> tasks (snd (create_task now2 uuid2 m2 (Some tid) md2
               (snd (create_task now1 uuid1 m1 (Some tid) md1 s)))) tid
     = Some (fst (create_task now2 uuid2 m2 (Some tid) md2
               (snd (create_task now1 uuid1 m1 (Some tid) md1 s))))
   \<and> fst (create_task now2 uuid2 m2 (Some tid) md2 (snd (create_task now1 uuid1 m1 (Some tid) md1 s)))
     = (fst (create_task now1 uuid1 m1 (Some tid) md1 s))
         \<lparr>task_history := task_history (fst (create_task now1 uuid1 m1 (Some tid) md1 s)) @ [m2]\<rparr>
   \<and> dom (tasks (snd (create_task now2 uuid2 m2 (Some tid) md2
               (snd (create_task now1 uuid1 m1 (Some tid) md1 s)))))
     = insert tid (dom (tasks s))
   \<and> (\<forall>other. other \<noteq> tid \<longrightarrow>
         tasks (snd (create_task now2 uuid2 m2 (Some tid) md2
               (snd (create_task now1 uuid1 m1 (Some tid) md1 s)))) other = tasks s other)
   \<and> (tasks s tid = None \<longrightarrow>
         fst (create_task now2 uuid2 m2 (Some tid) md2 (snd (create_task now1 uuid1 m1 (Some tid) md1 s)))
           = \<lparr>task_id = tid,
              task_status = \<lparr>st_state = SUBMITTED, st_message = None, st_timestamp = now1\<rparr>,
              task_artifacts = [],
              task_history = [m1, m2],
              task_metadata = (case md1 of None \<Rightarrow> [] | Some md \<Rightarrow> md)\<rparr>)"
  by (cases "tasks s tid"; cases md1)
     (auto simp: create_task_def Let_def)

theorem create_task_twice_witness:
  "tasks (TaskManager_init example_heap) ''t1'' = None
   \<and> fst (create_task 1 ''generated'' \<lparr>msg_role = user, msg_parts = [TextPart ''again''],
                                        msg_metadata = []\<rparr>
            (Some ''t1'') (Some [(''source'', ''retry'')])
            (snd (create_task 0 ''generated'' example_message (Some ''t1'')
                    (Some [(''source'', ''api'')]) (TaskManager_init example_heap))))
       = \<lparr>task_id = ''t1'',
          task_status = \<lparr>st_state = SUBMITTED, st_message = None, st_timestamp = 0\<rparr>,
          task_artifacts = [],
          task_history = [example_message,
            \<lparr>msg_role = user, msg_parts = [TextPart ''again''], msg_metadata = []\<rparr>],
          task_metadata = [(''source'', ''api'')]\<rparr>"
proof -
  have h: "tasks (TaskManager_init example_heap) ''t1'' = None"
    by (simp add: TaskManager_init_def)
  from create_task_twice [of 0 "''generated''" example_message "''t1''"
      "Some [(''source'', ''api'')]" "TaskManager_init example_heap" 1 "''generated''"
      "\<lparr>msg_role = user, msg_parts = [TextPart ''again''], msg_metadata = []\<rparr>"
      "Some [(''source'', ''retry'')]",
      THEN conjunct2, THEN conjunct2, THEN conjunct2, THEN conjunct2, THEN conjunct2] h
  show ?thesis by simp
qed

subsection \<open>Artifacts\<close>

text \<open>
  \<open>add_artifact\<close> keeps every index equal to its position as long as the artifact
  object it is given is not yet held by any task.
\<close>

lemma add_artifact_unused_indexed:
  assumes "indexed s" and "unused a s"
  shows "indexed (snd (add_artifact tid a s))"
proof (cases "tasks s tid")
  case None
  with assms show ?thesis by (simp add: add_artifact_def)
next
  case (Some task)
  let ?h = "(heap s)(a := (heap s a)\<lparr>art_index := int (length (task_artifacts task))\<rparr>)"
  let ?task1 = "task\<lparr>task_artifacts := task_artifacts task @ [a]\<rparr>"
  let ?s2 = "s\<lparr>heap := ?h, tasks := (tasks s)(tid \<mapsto> ?task1)\<rparr>"
  have "tasks ?s2 tid = Some ?task1" by simp
  from notify_subscribers_ok [OF this] obtain s' where
    n: "notify_subscribers tid ?s2 = Inr s'" "tasks s' = tasks ?s2" "heap s' = heap ?s2"
    by blast
  have r: "snd (add_artifact tid a s) = s'"
    using Some n(1) by (simp add: add_artifact_def Let_def)
  show ?thesis
    unfolding r indexed_def n(2) n(3)
  proof (intro allI impI)
    fix tid' task' i
    assume t: "tasks ?s2 tid' = Some task'" and i: "i < length (task_artifacts task')"
    show "art_index (heap ?s2 (task_artifacts task' ! i)) = int i"
    proof (cases "tid' = tid")
      case True
      with t have task': "task' = ?task1" by simp
      show ?thesis
      proof (cases "i < length (task_artifacts task)")
        case True
        from assms(2) Some have "a \<notin> set (task_artifacts task)"
          by (simp add: unused_def)
        with nth_mem [OF True] have "task_artifacts task ! i \<noteq> a" by auto
        with assms(1) Some True show ?thesis
          by (simp add: task' indexed_def nth_append)
      next
        case False
        with i have "i = length (task_artifacts task)" by (simp add: task')
        then show ?thesis by (simp add: task' nth_append)
      qed
    next
      case False
      with t have t': "tasks s tid' = Some task'" by simp
      from assms(2) t' have "a \<notin> set (task_artifacts task')"
        by (simp add: unused_def)
      with nth_mem [OF i] have "task_artifacts task' ! i \<noteq> a" by auto
      with assms(1) t' i show ?thesis by (simp add: indexed_def)
    qed
  qed
qed

text \<open>
  C4. The specification's invariant is that after any sequence of calls the artifact at
  position \<open>i\<close> of a task has index \<open>i\<close>, each index being assigned once when the
  artifact is appended. The code does not keep it: \<open>add_artifact\<close> writes the index into the object it is given and appends that same
  object: after \<^verbatim>\<open>add_artifact("t1", a)\<close> twice with one artifact object \<open>a\<close>, the
  task holds \<open>a\<close> at positions 0 and 1 and both positions show index 1.
\<close>

theorem add_artifact_same_object_twice:
  "map_option (\<lambda>task. map (\<lambda>a. art_index (heap example_same_artifact_twice a)) (task_artifacts task))
     (tasks example_same_artifact_twice ''t1'') = Some [1, 1]"
  by (simp add: example_same_artifact_twice_def TaskManager_init_def example_heap_def manager_defs)

subsection \<open>Terminal states\<close>

text \<open>
  C5. Once the state of a task is \<open>COMPLETED\<close>, \<open>FAILED\<close> or \<open>CANCELED\<close>, the task
  keeps that state (indeed its whole status) through every sequence of calls
  (\<open>update_status\<close>, \<open>cancel_task\<close>, \<open>fail_task\<close>, \<open>complete_task\<close>, \<open>create_task\<close>
  with the same id, \<open>add_artifact\<close>, subscriptions), and every \<open>update_status\<close> on it
  afterwards raises \<open>InvalidStateTransitionError\<close> and changes nothing.
\<close>

theorem terminal_state_is_final:
  assumes "tasks s tid = Some task"
    and "st_state (task_status task) \<in> {COMPLETED, FAILED, CANCELED}"
  shows "(\<exists>task'. tasks (run ops s) tid = Some task'
            \<and> task_status task' = task_status task
            \<and> st_state (task_status task') = st_state (task_status task))
         \<and> update_status now tid state message (run ops s)
             = (Inl InvalidStateTransitionError, run ops s)"
proof -
  from run_keeps_task [OF assms(1), of ops] assms(2) obtain task' where
    t: "tasks (run ops s) tid = Some task'" "task_status task' = task_status task"
    by auto
  from t(2) assms(2) have "st_state (task_status task') \<in> {COMPLETED, FAILED, CANCELED}"
    by simp
  from update_status_terminal [OF t(1) this] t show ?thesis by simp
qed

theorem terminal_state_is_final_witness:
  "(\<exists>task. tasks example_failed ''t1'' = Some task \<and> st_state (task_status task) = FAILED)
   \<and> (\<exists>task'. tasks (run example_calls example_failed) ''t1'' = Some task'
         \<and> st_state (task_status task') = FAILED)
   \<and> update_status 6 ''t1'' WORKING None (run example_calls example_failed)
       = (Inl InvalidStateTransitionError, run example_calls example_failed)"
proof -
  let ?task = "the (tasks example_failed ''t1'')"
  have h1: "tasks example_failed ''t1'' = Some ?task"
    by (simp add: example_failed_task)
  have h2: "st_state (task_status ?task) \<in> {COMPLETED, FAILED, CANCELED}"
    by (simp add: example_failed_task)
  have h3: "st_state (task_status ?task) = FAILED"
    by (simp add: example_failed_task)
  from terminal_state_is_final [OF h1 h2, of example_calls 6 WORKING None] h1 h3
  show ?thesis by auto
qed

subsection \<open>Subscriptions\<close>

text \<open>
  C6. For every task stored in a manager that calls have produced from a new one, the
  first resumption of \<open>subscribe\<close> yields at once (it neither raises nor waits for a
  queue) a result whose id, status, artifacts and metadata are those of the task at that
  moment; the tasks and the artifact objects are as before.
\<close>

theorem subscribe_yields_initial_state:
  assumes "tasks (run ops (TaskManager_init h)) tid = Some task"
  shows "\<exists>frame s'. subscribe tid (run ops (TaskManager_init h))
             = (Inr (\<lparr>res_id = task_id task, res_status = task_status task,
                      res_artifacts = task_artifacts task,
                      res_metadata = task_metadata task\<rparr>, frame), s')
           \<and> tasks s' = tasks (run ops (TaskManager_init h))
           \<and> heap s' = heap (run ops (TaskManager_init h))"
  using assms by (rule subscribe_stored_task)

theorem subscribe_yields_initial_state_witness:
  "\<exists>frame s'. subscribe ''t1'' (run [CreateTask 0 ''generated'' example_message (Some ''t1'') None,
                                      FailTask 1 ''t1'' ''parse error'']
                                  (TaskManager_init example_heap))
      = (Inr (\<lparr>res_id = ''t1'',
               res_status = \<lparr>st_state = FAILED,
                 st_message = Some \<lparr>msg_role = agent,
                   msg_parts = [TextPart ''Task failed: parse error''], msg_metadata = []\<rparr>,
                 st_timestamp = 1\<rparr>,
               res_artifacts = [], res_metadata = []\<rparr>, frame), s')"
proof -
  let ?ops = "[CreateTask 0 ''generated'' example_message (Some ''t1'') None,
               FailTask 1 ''t1'' ''parse error'']"
  have r: "run ?ops (TaskManager_init example_heap) = example_failed"
    by (simp add: example_failed_def example_created_def)
  have h: "tasks (run ?ops (TaskManager_init example_heap)) ''t1''
             = Some (the (tasks example_failed ''t1''))"
    by (simp only: r) (simp add: example_failed_task)
  from subscribe_yields_initial_state [OF h] show ?thesis
    by (simp only: r) (auto simp add: example_failed_task)
qed

text \<open>
  A subscriber present from creation that observes the updates to \<open>WORKING\<close> and to
  \<open>COMPLETED\<close> receives three results, in that order, and the iteration then stops.
\<close>

lemma subscribe_three_snapshots:
  "fst (subscribe ''t1'' example_created)
     = Inr (\<lparr>res_id = ''t1'',
              res_status = \<lparr>st_state = SUBMITTED, st_message = None, st_timestamp = 0\<rparr>,
              res_artifacts = [], res_metadata = []\<rparr>, Running 0 None)"
  "fst (resume ''t1'' (Running 0 None) example_two_updates)
     = Inr (Yield example_working)"
  "fst (resume ''t1'' (Running 0 (Some example_working))
          (snd (snd (resume ''t1'' (Running 0 None) example_two_updates))))
     = Inr (Yield example_done)"
  "fst (resume ''t1'' (Running 0 (Some example_done))
          (snd (snd (resume ''t1'' (Running 0 (Some example_working))
             (snd (snd (resume ''t1'' (Running 0 None) example_two_updates)))))))
     = Inr StopAsyncIteration"
  by (simp_all add: example_two_updates_def example_working_def example_done_def
      example_created_def TaskManager_init_def task_to_result_def manager_defs)

text \<open>
  C7. The specification has the sequence of results of a subscription end after the first
  result whose state is terminal. The code does not: the terminal test of the generator is applied to the
  results taken from the queue only, not to the initial result: a subscription to a task
  that has already completed yields the \<open>COMPLETED\<close> result and then waits on its empty
  queue; no status update of a completed task succeeds, so none of the calls that follow
  (\<open>update_status\<close>, \<open>cancel_task\<close>, \<open>fail_task\<close>, \<open>complete_task\<close>,
  \<open>create_task\<close>) puts anything on the queue, and the subscription still waits.
\<close>

theorem subscribe_after_terminal_state_waits:
  "fst (subscribe ''t1'' example_completed)
     = Inr (\<lparr>res_id = ''t1'',
              res_status = \<lparr>st_state = COMPLETED, st_message = None, st_timestamp = 2\<rparr>,
              res_artifacts = [], res_metadata = []\<rparr>, Running 0 None)
   \<and> fst (resume ''t1'' (Running 0 None) (snd (subscribe ''t1'' example_completed)))
       = Inr Waiting
   \<and> fst (resume ''t1'' (Running 0 None)
        (run [UpdateStatus 3 ''t1'' WORKING None, CancelTask 4 ''t1'',
              FailTask 5 ''t1'' ''late'', CompleteTask 6 ''t1'' None,
              CreateTask 7 ''generated'' example_message (Some ''t1'') None]
           (snd (subscribe ''t1'' example_completed))))
       = Inr Waiting"
  by (simp add: example_completed_def TaskManager_init_def task_to_result_def manager_defs)

subsection \<open>Errors\<close>

text \<open>
  C8. For an id with no task in the store, \<open>get_task\<close>, \<open>update_status\<close>,
  \<open>add_artifact\<close> and \<open>subscribe\<close> each raise \<open>TaskNotFoundError\<close> and leave the
  manager unchanged. And in every manager that calls have produced from a new one, these
  four operations raise nothing but \<open>TaskNotFoundError\<close> and
  \<open>InvalidStateTransitionError\<close> (no \<open>KeyError\<close> from a dictionary, no
  \<open>ValueError\<close> from a list).
\<close>

theorem unknown_task_raises_not_found:
  "(tasks s tid = None \<longrightarrow>
      get_task tid s = Inl TaskNotFoundError
      \<and> update_status now tid state message s = (Inl TaskNotFoundError, s)
      \<and> add_artifact tid artifact s = (Inl TaskNotFoundError, s)
      \<and> subscribe tid s = (Inl TaskNotFoundError, s))
   \<and> raised (get_task tid' (run ops (TaskManager_init h)))
       \<union> raised (fst (update_status now tid' state message (run ops (TaskManager_init h))))
       \<union> raised (fst (add_artifact tid' artifact (run ops (TaskManager_init h))))
       \<union> raised (fst (subscribe tid' (run ops (TaskManager_init h))))
     \<subseteq> {TaskNotFoundError, InvalidStateTransitionError}"
proof -
  let ?r = "run ops (TaskManager_init h)"
  have a: "tasks s tid = None \<longrightarrow>
      get_task tid s = Inl TaskNotFoundError
      \<and> update_status now tid state message s = (Inl TaskNotFoundError, s)
      \<and> add_artifact tid artifact s = (Inl TaskNotFoundError, s)
      \<and> subscribe tid s = (Inl TaskNotFoundError, s)"
    by (simp add: get_task_def update_status_def add_artifact_def subscribe_def)
  have b: "raised (get_task tid' ?r) \<subseteq> {TaskNotFoundError, InvalidStateTransitionError}"
    by (simp add: get_task_def split: option.splits)
  have c: "raised (fst (update_status now tid' state message ?r))
             \<subseteq> {TaskNotFoundError, InvalidStateTransitionError}"
  proof (cases "tasks ?r tid'")
    case None
    then show ?thesis by (simp add: update_status_def)
  next
    case (Some task)
    show ?thesis
    proof (cases "(st_state (task_status task), state) \<in> set transition_table")
      case True
      from update_status_allowed [OF Some True, of now message]
      show ?thesis by auto
    next
      case False
      from update_status_rejected [OF Some False, of now message]
      show ?thesis by simp
    qed
  qed
  have d: "raised (fst (add_artifact tid' artifact ?r))
             \<subseteq> {TaskNotFoundError, InvalidStateTransitionError}"
  proof (cases "tasks ?r tid'")
    case None
    then show ?thesis by (simp add: add_artifact_def)
  next
    case (Some task)
    let ?s2 = "?r\<lparr>heap := (heap ?r)(artifact := (heap ?r artifact)
                  \<lparr>art_index := int (length (task_artifacts task))\<rparr>),
                 tasks := (tasks ?r)(tid' \<mapsto> task\<lparr>task_artifacts := task_artifacts task @ [artifact]\<rparr>)\<rparr>"
    have "tasks ?s2 tid' = Some (task\<lparr>task_artifacts := task_artifacts task @ [artifact]\<rparr>)"
      by simp
    from notify_subscribers_ok [OF this] obtain s' where
      "notify_subscribers tid' ?s2 = Inr s'" by blast
    with Some show ?thesis by (simp add: add_artifact_def Let_def)
  qed
  have e: "raised (fst (subscribe tid' ?r)) \<subseteq> {TaskNotFoundError, InvalidStateTransitionError}"
  proof (cases "tasks ?r tid'")
    case None
    then show ?thesis by (simp add: subscribe_def)
  next
    case (Some task)
    from subscribe_stored_task [OF Some] show ?thesis by auto
  qed
  from a b c d e show ?thesis by blast
qed

theorem unknown_task_raises_not_found_witness:
  "tasks example_created ''t2'' = None
   \<and> get_task ''t2'' example_created = Inl TaskNotFoundError
   \<and> update_status 1 ''t2'' WORKING None example_created = (Inl TaskNotFoundError, example_created)
   \<and> add_artifact ''t2'' 0 example_created = (Inl TaskNotFoundError, example_created)
   \<and> subscribe ''t2'' example_created = (Inl TaskNotFoundError, example_created)"
proof -
  have h: "tasks example_created ''t2'' = None"
    by (simp add: example_created_def create_task_def TaskManager_init_def Let_def)
  from unknown_task_raises_not_found [of example_created "''t2''" 1 WORKING None 0] h
  show ?thesis by simp
qed

subsection \<open>Convenience methods\<close>

text \<open>
  C9. \<open>cancel_task\<close> is \<open>update_status\<close> to \<open>CANCELED\<close> with the fixed agent message
  "Task was canceled by request."; \<open>fail_task\<close> is \<open>update_status\<close> to \<open>FAILED\<close> with
  the agent message "Task failed: " followed by the reason; \<open>complete_task\<close> is
  \<open>update_status\<close> to \<open>COMPLETED\<close> with the message given, if any. Each pair agrees on
  the returned task or the error raised and on the manager left behind, its subscriber
  queues included.
\<close>

theorem convenience_methods_are_update_status:
  "cancel_task now tid s
     = update_status now tid CANCELED
         (Some \<lparr>msg_role = agent, msg_parts = [TextPart ''Task was canceled by request.''],
                msg_metadata = []\<rparr>) s
   \<and> fail_task now tid reason s
     = update_status now tid FAILED
         (Some \<lparr>msg_role = agent, msg_parts = [TextPart (''Task failed: '' @ reason)],
                msg_metadata = []\<rparr>) s
   \<and> complete_task now tid message s = update_status now tid COMPLETED message s"
  by (simp add: cancel_task_def fail_task_def complete_task_def)

subsection \<open>Frame conditions\<close>

text \<open>
  C10. For a task that exists, \<open>create_task\<close> with its id ignores the metadata
  argument: the task returned and the task stored carry the metadata they had. And no
  sequence of calls (\<open>create_task\<close> on the same id, \<open>update_status\<close>,
  \<open>add_artifact\<close>, and the others) changes the metadata or the id of a stored task.
\<close>

theorem metadata_and_id_immutable:
  assumes "tasks s tid = Some task"
  shows "task_metadata (fst (create_task now uuid message (Some tid) metadata s))
           = task_metadata task
         \<and> (\<exists>task'. tasks (snd (create_task now uuid message (Some tid) metadata s)) tid
                      = Some task'
               \<and> task_metadata task' = task_metadata task \<and> task_id task' = task_id task)
         \<and> (\<exists>task'. tasks (run ops s) tid = Some task'
               \<and> task_metadata task' = task_metadata task \<and> task_id task' = task_id task)"
proof -
  have "task_metadata (fst (create_task now uuid message (Some tid) metadata s))
          = task_metadata task"
    using assms by (simp add: create_task_def Let_def)
  moreover have "\<exists>task'. tasks (snd (create_task now uuid message (Some tid) metadata s)) tid
                      = Some task'
               \<and> task_metadata task' = task_metadata task \<and> task_id task' = task_id task"
    using assms by (simp add: create_task_def Let_def)
  moreover have "\<exists>task'. tasks (run ops s) tid = Some task'
               \<and> task_metadata task' = task_metadata task \<and> task_id task' = task_id task"
    using run_keeps_task [OF assms, of ops] by blast
  ultimately show ?thesis by blast
qed

theorem metadata_and_id_immutable_witness:
  "task_metadata (fst (create_task 7 ''generated'' example_message (Some ''t1'')
       (Some [(''source'', ''api'')]) example_created)) = []
   \<and> (\<exists>task'. tasks (run example_calls example_created) ''t1'' = Some task'
         \<and> task_metadata task' = [] \<and> task_id task' = ''t1'')"
  using metadata_and_id_immutable [OF example_created_task,
      of 7 "''generated''" example_message "Some [(''source'', ''api'')]" example_calls]
  by simp

end
